theory Spec2Isabelle
  imports Main "HOL-Library.AList"
begin

section \<open>Completion items (server.ts, lines 190--383)\<close>

text \<open>
  The \<open>data\<close> field of a completion item has the protocol type \<open>any\<close>; the handler
  compares it with \<open>===\<close> against number literals, so a string, a boolean, \<open>null\<close> or a
  structured value never equals a tag, whatever it contains. Numbers are carried as
  integers (every tag of the catalog is one); \<open>Structured\<close> stands for arrays and
  objects, whose content the handler never inspects.
\<close>

datatype lsp_any = Number int | String string | Boolean bool | Null | Structured

text \<open>\<open>CompletionItemKind\<close> is a numeric enumeration of the protocol; \<open>Text\<close> is 1.\<close>

type_synonym CompletionItemKind = nat

definition Text :: CompletionItemKind where
  "Text = 1"

text \<open>
  The fields of \<open>CompletionItem\<close> the server reads or writes. Optional fields are
  \<open>option\<close>s (\<open>None\<close>: the property is absent). Every other optional field of the
  protocol's item lives in the record's extension \<open>more\<close>.
\<close>

record CompletionItem =
  label :: string
  kind :: "CompletionItemKind option"
  detail :: "string option"
  documentation :: "string option"
  data :: "lsp_any option"

record Position =
  line :: nat
  character :: nat

record TextDocumentPositionParams =
  textDocument_uri :: string
  position :: Position

text \<open>An object literal \<open>{label, kind: CompletionItemKind.Text, data}\<close> of the catalog.\<close>

definition catalog_item :: "string \<Rightarrow> int \<Rightarrow> CompletionItem" where
  "catalog_item l d =
     \<lparr>label = l, kind = Some Text, detail = None, documentation = None, data = Some (Number d)\<rparr>"

text \<open>\<open>connection.onCompletion\<close>: the parameter is ignored, the array literal is returned.\<close>

definition onCompletion :: "TextDocumentPositionParams \<Rightarrow> CompletionItem list" where
  "onCompletion textDocumentPosition =
     [ \<comment> \<open>VARIABLES\<close>
       catalog_item ''var'' 3,
       catalog_item ''f16'' 2,
       catalog_item ''f32'' 2,
       catalog_item ''f64'' 2,
       catalog_item ''f128'' 2,
       catalog_item ''BFloat16'' 2,
       catalog_item ''String'' 4,
       catalog_item ''StringView'' 4,
       catalog_item ''i8'' 1,
       catalog_item ''i16'' 1,
       catalog_item ''i32'' 1,
       catalog_item ''i64'' 1,
       catalog_item ''i128'' 1,
       catalog_item ''i256'' 1,
       catalog_item ''u8'' 1,
       catalog_item ''u16'' 1,
       catalog_item ''u32'' 1,
       catalog_item ''u64'' 1,
       catalog_item ''u128'' 1,
       catalog_item ''u256'' 1,
       \<comment> \<open>FUNCTIONS\<close>
       catalog_item ''if'' 6,
       catalog_item ''while'' 6,
       catalog_item ''then'' 6,
       catalog_item ''else'' 6,
       catalog_item ''Carbon'' 6,
       catalog_item ''Swap'' 6,
       catalog_item ''Size'' 6,
       catalog_item ''fn'' 6,
       catalog_item ''Slice'' 6,
       catalog_item ''in'' 6 ]"

text \<open>
  \<open>connection.onCompletionResolve\<close>: an \<open>if\<close>/\<open>else if\<close> chain on \<open>item.data === n\<close>
  that assigns \<open>item.detail\<close> and \<open>item.documentation\<close>, then \<open>return item\<close>. The item
  is the request's own payload; the model returns the updated record.
\<close>

definition onCompletionResolve :: "'a CompletionItem_scheme \<Rightarrow> 'a CompletionItem_scheme" where
  "onCompletionResolve item =
     (if data item = Some (Number 1) then
        item\<lparr>detail := Some ''Carbon Signed Integer Type'',
             documentation := Some ''Contains a integer value. You can set the number of bits by using i16, i32, i64, i128, or i256.''\<rparr>
      else if data item = Some (Number 2) then
        item\<lparr>detail := Some ''Carbon Floating Point Type'',
             documentation := Some ''This is a floating point''\<rparr>
      else if data item = Some (Number 3) then
        item\<lparr>detail := Some ''Carbon Var'',
             documentation := Some ''A var declares a variable.''\<rparr>
      else if data item = Some (Number 4) then
        item\<lparr>detail := Some ''Carbon String'',
             documentation := Some ''A String is a byte sequence treated as containing UTF-8 encoded text. A StringView is a read only variation of a String.''\<rparr>
      else if data item = Some (Number 5) then
        item\<lparr>detail := Some ''Carbon Floating Point Type'',
             documentation := Some ''Contains a floating point value that rounds-to-nearest. You can set the number of bits by using f16, f32, f64, and f128. BFloat16 is also supported.''\<rparr>
      else if data item = Some (Number 6) then
        item\<lparr>detail := Some ''Carbon Function'',
             documentation := Some ''Function - Description to be added.''\<rparr>
      else item)"

section \<open>Session state (server.ts, lines 26--33 and 83--95)\<close>

record ExampleSettings =
  maxNumberOfProblems :: int

definition defaultSettings :: ExampleSettings where
  "defaultSettings = \<lparr>maxNumberOfProblems = 1000\<rparr>"

text \<open>
  A promise settles by being fulfilled with a value or by being rejected. The value the
  client sends for the section \<open>languageServerExample\<close> is a settings object or
  \<open>null\<close> (\<open>None\<close>).
\<close>

datatype 'v settlement = Fulfilled 'v | Rejected

text \<open>
  The \<open>Thenable<ExampleSettings>\<close> values the server holds: \<open>Promise.resolve(v)\<close>, or
  the promise that the \<open>n\<close>-th call of \<open>connection.workspace.getConfiguration\<close>
  returned (calls are numbered from 0 in the order they are made, so two different
  calls give two different promises).
\<close>

datatype thenable = Resolved ExampleSettings | Requested nat

text \<open>The client, as the server sees it: how it answers the \<open>n\<close>-th configuration request.\<close>

type_synonym client = "nat \<Rightarrow> ExampleSettings option settlement"

definition await :: "client \<Rightarrow> thenable \<Rightarrow> ExampleSettings option settlement" where
  "await client p = (case p of Resolved v \<Rightarrow> Fulfilled (Some v) | Requested n \<Rightarrow> client n)"

record Range =
  range_start :: Position
  range_end :: Position

datatype DiagnosticSeverity = Error | Warning | Information | Hint

record DiagnosticRelatedInformation =
  location_uri :: string
  location_range :: Range
  related_message :: string

record Diagnostic =
  severity :: "DiagnosticSeverity option"
  diagnostic_range :: Range
  message :: string
  source :: "string option"
  relatedInformation :: "DiagnosticRelatedInformation list option"

record PublishDiagnosticsParams =
  publish_uri :: string
  diagnostics :: "Diagnostic list"

record TextDocument =
  uri :: string
  version :: int
  getText :: string

text \<open>
  The module's variables, the content of the document manager \<open>documents\<close> (a JavaScript
  \<open>Map\<close> from URI to document, in insertion order) and the two things the server sends:
  the configuration requests (\<open>scopeUri\<close>, \<open>section\<close>) and the diagnostics
  notifications, each in the order sent.
\<close>

record server =
  hasConfigurationCapability :: bool
  hasWorkspaceFolderCapability :: bool
  hasDiagnosticRelatedInformationCapability :: bool
  globalSettings :: ExampleSettings
  documentSettings :: "string \<rightharpoonup> thenable"
  documents :: "(string \<times> TextDocument) list"
  requests :: "(string \<times> string) list"
  published :: "PublishDiagnosticsParams list"

definition initial :: server where
  "initial =
     \<lparr>hasConfigurationCapability = False,
      hasWorkspaceFolderCapability = False,
      hasDiagnosticRelatedInformationCapability = False,
      globalSettings = defaultSettings,
      documentSettings = Map.empty,
      documents = [],
      requests = [],
      published = []\<rparr>"

section \<open>Configuration cache (server.ts, lines 97--129)\<close>

text \<open>\<open>connection.workspace.getConfiguration({scopeUri, section})\<close>: sends the request and
  returns its promise.\<close>

definition getConfiguration :: "string \<Rightarrow> string \<Rightarrow> server \<Rightarrow> thenable \<times> server" where
  "getConfiguration scopeUri section s =
     (Requested (length (requests s)), s\<lparr>requests := requests s @ [(scopeUri, section)]\<rparr>)"

text \<open>\<open>getDocumentSettings\<close>. A stored promise is an object, hence truthy: \<open>!result\<close>
  holds exactly when the map has no entry for the resource.\<close>

definition getDocumentSettings :: "string \<Rightarrow> server \<Rightarrow> thenable \<times> server" where
  "getDocumentSettings resource s =
     (if \<not> hasConfigurationCapability s then (Resolved (globalSettings s), s)
      else case documentSettings s resource of
        Some result \<Rightarrow> (result, s)
      | None \<Rightarrow>
          (let (result, s1) = getConfiguration resource ''languageServerExample'' s
           in (result, s1\<lparr>documentSettings := (documentSettings s1)(resource \<mapsto> result)\<rparr>)))"

text \<open>\<open>documents.onDidClose\<close>: \<open>documentSettings.delete(e.document.uri)\<close>.\<close>

definition onDidClose :: "TextDocument \<Rightarrow> server \<Rightarrow> server" where
  "onDidClose document s = s\<lparr>documentSettings := (documentSettings s)(uri document := None)\<rparr>"

section \<open>Validation (server.ts, lines 131--182)\<close>

definition sendDiagnostics :: "PublishDiagnosticsParams \<Rightarrow> server \<Rightarrow> server" where
  "sendDiagnostics params s = s\<lparr>published := published s @ [params]\<rparr>"

text \<open>
  \<open>validateTextDocument\<close>. The call runs \<open>getDocumentSettings\<close> at once and suspends at
  \<open>await\<close>. When the promise is rejected, \<open>await\<close> throws and nothing after it runs.
  When it is fulfilled, the rest runs: the text is read, the \<open>while\<close> loop of lines
  148--178 is inside a block comment, so \<open>diagnostics\<close> is still the empty array when
  it is sent. The rest of the function writes to the connection only, so running it
  right after the first half gives the same state as running it once the answer has
  arrived.
\<close>

definition validateTextDocument :: "client \<Rightarrow> TextDocument \<Rightarrow> server \<Rightarrow> server" where
  "validateTextDocument client textDocument s =
     (let (promise, s1) = getDocumentSettings (uri textDocument) s in
      case await client promise of
        Rejected \<Rightarrow> s1
      | Fulfilled settings \<Rightarrow>
          (let text = getText textDocument;
               diagnostics = ([] :: Diagnostic list)
           in sendDiagnostics \<lparr>publish_uri = uri textDocument, diagnostics = diagnostics\<rparr> s1))"

text \<open>\<open>documents.onDidChangeContent\<close>.\<close>

definition onDidChangeContent :: "client \<Rightarrow> TextDocument \<Rightarrow> server \<Rightarrow> server" where
  "onDidChangeContent client document s = validateTextDocument client document s"

text \<open>
  \<open>connection.onDidChangeConfiguration\<close>. \<open>change.settings\<close> is \<open>None\<close> when it is
  \<open>null\<close> or missing (reading its property then throws), otherwise it holds the value of
  its property \<open>languageServerExample\<close>, \<open>None\<close> when that is missing or falsy.
  \<open>documents.all()\<close> lists the open documents in the map's order.
\<close>

datatype error = TypeError

definition onDidChangeConfiguration ::
    "client \<Rightarrow> ExampleSettings option option \<Rightarrow> server \<Rightarrow> error + server" where
  "onDidChangeConfiguration client change_settings s =
     (case (if hasConfigurationCapability s then Inr (s\<lparr>documentSettings := Map.empty\<rparr>)
            else case change_settings of
              None \<Rightarrow> Inl TypeError
            | Some languageServerExample \<Rightarrow>
                Inr (s\<lparr>globalSettings :=
                       (case languageServerExample of None \<Rightarrow> defaultSettings | Some v \<Rightarrow> v)\<rparr>)) of
        Inl e \<Rightarrow> Inl e
      | Inr s1 \<Rightarrow> Inr (fold (validateTextDocument client) (map snd (documents s1)) s1))"

section \<open>Initialisation (server.ts, lines 35--69)\<close>

record WorkspaceClientCapabilities =
  configuration :: "bool option"
  workspaceFolders :: "bool option"

record PublishDiagnosticsClientCapabilities =
  relatedInformation_capability :: "bool option"

record TextDocumentClientCapabilities =
  publishDiagnostics :: "PublishDiagnosticsClientCapabilities option"

record ClientCapabilities =
  capabilities_workspace :: "WorkspaceClientCapabilities option"
  capabilities_textDocument :: "TextDocumentClientCapabilities option"

record InitializeResult =
  textDocumentSync :: nat
  completionProvider_resolveProvider :: bool
  workspace_workspaceFolders_supported :: "bool option"

text \<open>\<open>TextDocumentSyncKind.Incremental\<close> is 2.\<close>

definition Incremental :: nat where
  "Incremental = 2"

definition onInitialize :: "ClientCapabilities \<Rightarrow> server \<Rightarrow> InitializeResult \<times> server" where
  "onInitialize capabilities s =
     (let conf = (case capabilities_workspace capabilities of
                    None \<Rightarrow> False
                  | Some w \<Rightarrow> configuration w = Some True);
          folders = (case capabilities_workspace capabilities of
                       None \<Rightarrow> False
                     | Some w \<Rightarrow> workspaceFolders w = Some True);
          related = (case capabilities_textDocument capabilities of
                       None \<Rightarrow> False
                     | Some t \<Rightarrow>
                         (case publishDiagnostics t of
                            None \<Rightarrow> False
                          | Some pd \<Rightarrow> relatedInformation_capability pd = Some True))
      in (\<lparr>textDocumentSync = Incremental,
           completionProvider_resolveProvider = True,
           workspace_workspaceFolders_supported = (if folders then Some True else None)\<rparr>,
          s\<lparr>hasConfigurationCapability := conf,
            hasWorkspaceFolderCapability := folders,
            hasDiagnosticRelatedInformationCapability := related\<rparr>))"

section \<open>The session: notifications as the document manager delivers them\<close>

datatype notification =
    Initialize ClientCapabilities
  | DidOpenTextDocument TextDocument
  | DidChangeTextDocument string int string
  | DidCloseTextDocument string
  | DidChangeConfiguration "ExampleSettings option option"
  | DidChangeWatchedFiles

text \<open>
  Modelled from the spec: the document manager (the class \<open>TextDocuments\<close> of the
  language-server library, which \<open>documents.listen(connection)\<close> attaches) is not among
  the sources. After the spec's Document Store: an open notification stores the
  document under its URI (overwriting one already there) and raises the content-change
  event; a change notification for an open document whose version is greater than the
  stored one replaces text and version and raises the content-change event, and is
  ignored otherwise; a close notification for an open document removes it and raises
  the close event. \<open>DidChangeTextDocument u v t\<close> carries the text \<open>t\<close> that the edits
  produce. An exception thrown by a handler leaves the state as it was.
\<close>

definition deliver :: "client \<Rightarrow> notification \<Rightarrow> server \<Rightarrow> server" where
  "deliver client n s =
     (case n of
        Initialize capabilities \<Rightarrow> snd (onInitialize capabilities s)
      | DidOpenTextDocument d \<Rightarrow>
          onDidChangeContent client d (s\<lparr>documents := AList.update (uri d) d (documents s)\<rparr>)
      | DidChangeTextDocument u v t \<Rightarrow>
          (case map_of (documents s) u of
             None \<Rightarrow> s
           | Some d \<Rightarrow>
               if v \<le> version d then s
               else (let d' = d\<lparr>version := v, getText := t\<rparr>
                     in onDidChangeContent client d'
                          (s\<lparr>documents := AList.update u d' (documents s)\<rparr>)))
      | DidCloseTextDocument u \<Rightarrow>
          (case map_of (documents s) u of
             None \<Rightarrow> s
           | Some d \<Rightarrow> onDidClose d (s\<lparr>documents := AList.delete u (documents s)\<rparr>))
      | DidChangeConfiguration change_settings \<Rightarrow>
          (case onDidChangeConfiguration client change_settings s of
             Inl e \<Rightarrow> s
           | Inr s1 \<Rightarrow> s1)
      | DidChangeWatchedFiles \<Rightarrow> s)"

definition run :: "client \<Rightarrow> notification list \<Rightarrow> server \<Rightarrow> server" where
  "run client ns s = fold (deliver client) ns s"

section \<open>The scan that lines 148--178 hold inside a block comment\<close>

text \<open>
  The loop that scans the text and builds the diagnostics is in the source, inside a
  block comment; the specification describes it as running. This is the loop as it
  would run outside the comment, on texts of ASCII characters. The pattern is
  \<open>/\b[A-Z]{2,}\b/g\<close>: a match starts where the previous character is not a
  word character and the current one is an upper-case letter,
  takes the whole run of upper-case letters, which must have at least two letters and
  be followed by the end of the text or by a character that is not a word character;
  the search goes on after the match. \<open>uppercase_words prev i t\<close> lists the matches
  (index, matched text) in \<open>t\<close>, which starts at index \<open>i\<close> of the text, \<open>prev\<close>
  telling whether the character before it is a word character.
\<close>

definition is_upper :: "char \<Rightarrow> bool" where
  "is_upper c = (let n = (of_char c :: nat) in 65 \<le> n \<and> n \<le> 90)"

definition is_word_char :: "char \<Rightarrow> bool" where
  "is_word_char c =
     (let n = (of_char c :: nat)
      in (65 \<le> n \<and> n \<le> 90) \<or> (97 \<le> n \<and> n \<le> 122) \<or> (48 \<le> n \<and> n \<le> 57) \<or> n = 95)"

function uppercase_words :: "bool \<Rightarrow> nat \<Rightarrow> string \<Rightarrow> (nat \<times> string) list" where
  "uppercase_words prev i [] = []"
| "uppercase_words prev i (c # cs) =
     (if is_upper c \<and> \<not> prev \<and> 2 \<le> length (takeWhile is_upper (c # cs)) \<and>
         (case dropWhile is_upper (c # cs) of [] \<Rightarrow> True | d # ds \<Rightarrow> \<not> is_word_char d)
      then (i, takeWhile is_upper (c # cs)) #
             uppercase_words True (i + length (takeWhile is_upper (c # cs)))
               (dropWhile is_upper (c # cs))
      else uppercase_words (is_word_char c) (Suc i) cs)"
  by pat_completeness auto
termination
  by (relation "measure (\<lambda>(prev, i, t). length t)")
     (auto simp: less_Suc_eq_le length_dropWhile_le)

text \<open>
  The loop: \<open>while ((m = pattern.exec(text)) && problems < settings.maxNumberOfProblems)\<close>
  pushes one diagnostic per match until \<open>problems\<close> reaches the maximum.
  \<open>positionAt\<close> is the document library's conversion of an offset to a position.
\<close>

definition scan_in_comment ::
    "(nat \<Rightarrow> Position) \<Rightarrow> bool \<Rightarrow> ExampleSettings \<Rightarrow> TextDocument \<Rightarrow> Diagnostic list" where
  "scan_in_comment positionAt related settings textDocument =
     map (\<lambda>(index, word).
            (let r = \<lparr>range_start = positionAt index,
                      range_end = positionAt (index + length word)\<rparr>
             in \<lparr>severity = Some Warning,
                 diagnostic_range = r,
                 message = word @ '' is all uppercase.'',
                 source = Some ''ex'',
                 relatedInformation =
                   (if related then
                      Some [\<lparr>location_uri = uri textDocument, location_range = r,
                             related_message = ''Spelling matters''\<rparr>,
                            \<lparr>location_uri = uri textDocument, location_range = r,
                             related_message = ''Particularly for names''\<rparr>]
                    else None)\<rparr>))
         (take (nat (maxNumberOfProblems settings))
            (uppercase_words False 0 (getText textDocument)))"

section \<open>Notions the properties are stated with\<close>

text \<open>The values of \<open>item.data\<close> that the chain of \<open>onCompletionResolve\<close> tests for.\<close>

definition detail_tags :: "lsp_any option set" where
  "detail_tags =
     {Some (Number 1), Some (Number 2), Some (Number 3), Some (Number 4), Some (Number 5),
      Some (Number 6)}"

text \<open>Every document of the manager is stored under its own URI.\<close>

definition keyed_by_uri :: "(string \<times> TextDocument) list \<Rightarrow> bool" where
  "keyed_by_uri ds = list_all (\<lambda>(k, d). uri d = k) ds"

text \<open>The settings cache has entries for open documents only.\<close>

definition cache_within_open :: "server \<Rightarrow> bool" where
  "cache_within_open s =
     (dom (documentSettings s) \<subseteq> fst ` set (documents s) \<and> keyed_by_uri (documents s))"

text \<open>The tags of the items listed under \<open>VARIABLES\<close> and under \<open>FUNCTIONS\<close>.\<close>

definition variable_tags :: "lsp_any option set" where
  "variable_tags = {Some (Number 1), Some (Number 2), Some (Number 3), Some (Number 4)}"

definition function_tag :: "lsp_any option" where
  "function_tag = Some (Number 6)"

text \<open>
  Clients for the examples: one that rejects every configuration request, one that
  rejects the first request and answers every later one, one that answers \<open>null\<close>;
  capabilities that announce \<open>workspace.configuration\<close>; and \<open>positionAt\<close> on a
  document of a single line.
\<close>

definition rejecting_client :: client where
  "rejecting_client n = Rejected"

definition failing_once_client :: client where
  "failing_once_client n = (if n = 0 then Rejected else Fulfilled (Some defaultSettings))"

definition null_client :: client where
  "null_client n = Fulfilled None"

definition configurable :: ClientCapabilities where
  "configurable =
     \<lparr>capabilities_workspace = Some \<lparr>configuration = Some True, workspaceFolders = None\<rparr>,
      capabilities_textDocument = None\<rparr>"

definition positionAt_one_line :: "nat \<Rightarrow> Position" where
  "positionAt_one_line offset = \<lparr>line = 0, character = offset\<rparr>"

section \<open>Resolving a completion item\<close>

text \<open>
  C3. For an item whose tag is one of 1 to 6, \<open>onCompletionResolve\<close> returns the item
  with \<open>detail\<close> and \<open>documentation\<close> set to the texts of that tag (signed integers,
  floating point, \<open>var\<close>, strings, the unused entry 5, functions) and every other field
  as it was. The handler assigns the two fields on the item it received and returns
  that item; the item is the payload of the request.
\<close>

theorem resolve_augments_mapped_tags:
  "(data item = Some (Number 1) \<longrightarrow>
      onCompletionResolve item =
        item\<lparr>detail := Some ''Carbon Signed Integer Type'',
             documentation := Some ''Contains a integer value. You can set the number of bits by using i16, i32, i64, i128, or i256.''\<rparr>) \<and>
   (data item = Some (Number 2) \<longrightarrow>
      onCompletionResolve item =
        item\<lparr>detail := Some ''Carbon Floating Point Type'',
             documentation := Some ''This is a floating point''\<rparr>) \<and>
   (data item = Some (Number 3) \<longrightarrow>
      onCompletionResolve item =
        item\<lparr>detail := Some ''Carbon Var'',
             documentation := Some ''A var declares a variable.''\<rparr>) \<and>
   (data item = Some (Number 4) \<longrightarrow>
      onCompletionResolve item =
        item\<lparr>detail := Some ''Carbon String'',
             documentation := Some ''A String is a byte sequence treated as containing UTF-8 encoded text. A StringView is a read only variation of a String.''\<rparr>) \<and>
   (data item = Some (Number 5) \<longrightarrow>
      onCompletionResolve item =
        item\<lparr>detail := Some ''Carbon Floating Point Type'',
             documentation := Some ''Contains a floating point value that rounds-to-nearest. You can set the number of bits by using f16, f32, f64, and f128. BFloat16 is also supported.''\<rparr>) \<and>
   (data item = Some (Number 6) \<longrightarrow>
      onCompletionResolve item =
        item\<lparr>detail := Some ''Carbon Function'',
             documentation := Some ''Function - Description to be added.''\<rparr>)"
  by (simp add: onCompletionResolve_def)

theorem resolve_augments_mapped_tags_witness:
  "onCompletionResolve (catalog_item ''i8'' 1) =
     \<lparr>label = ''i8'', kind = Some Text, detail = Some ''Carbon Signed Integer Type'',
      documentation = Some ''Contains a integer value. You can set the number of bits by using i16, i32, i64, i128, or i256.'',
      data = Some (Number 1)\<rparr> \<and>
   onCompletionResolve (catalog_item ''f32'' 2) =
     \<lparr>label = ''f32'', kind = Some Text, detail = Some ''Carbon Floating Point Type'',
      documentation = Some ''This is a floating point'', data = Some (Number 2)\<rparr> \<and>
   onCompletionResolve (catalog_item ''var'' 3) =
     \<lparr>label = ''var'', kind = Some Text, detail = Some ''Carbon Var'',
      documentation = Some ''A var declares a variable.'', data = Some (Number 3)\<rparr> \<and>
   onCompletionResolve (catalog_item ''String'' 4) =
     \<lparr>label = ''String'', kind = Some Text, detail = Some ''Carbon String'',
      documentation = Some ''A String is a byte sequence treated as containing UTF-8 encoded text. A StringView is a read only variation of a String.'',
      data = Some (Number 4)\<rparr> \<and>
   onCompletionResolve (catalog_item ''unused'' 5) =
     \<lparr>label = ''unused'', kind = Some Text, detail = Some ''Carbon Floating Point Type'',
      documentation = Some ''Contains a floating point value that rounds-to-nearest. You can set the number of bits by using f16, f32, f64, and f128. BFloat16 is also supported.'',
      data = Some (Number 5)\<rparr> \<and>
   onCompletionResolve (catalog_item ''while'' 6) =
     \<lparr>label = ''while'', kind = Some Text, detail = Some ''Carbon Function'',
      documentation = Some ''Function - Description to be added.'', data = Some (Number 6)\<rparr>"
  using resolve_augments_mapped_tags [of "catalog_item ''i8'' 1"]
    resolve_augments_mapped_tags [of "catalog_item ''f32'' 2"]
    resolve_augments_mapped_tags [of "catalog_item ''var'' 3"]
    resolve_augments_mapped_tags [of "catalog_item ''String'' 4"]
    resolve_augments_mapped_tags [of "catalog_item ''unused'' 5"]
    resolve_augments_mapped_tags [of "catalog_item ''while'' 6"]
  by (simp add: catalog_item_def)

text \<open>
  C8. An item whose \<open>data\<close> is none of the tags 1 to 6 (another number, a value that
  is not a number, or no \<open>data\<close> at all) is returned as it came. The handler has no
  failing branch: its result is an item for every input.
\<close>

theorem resolve_unmapped_tag_passes_through:
  "data item \<notin> detail_tags \<Longrightarrow> onCompletionResolve item = item"
  by (simp add: onCompletionResolve_def detail_tags_def)

theorem resolve_unmapped_tag_passes_through_witness:
  "data (catalog_item ''other'' 7) \<notin> detail_tags \<and>
   onCompletionResolve (catalog_item ''other'' 7) = catalog_item ''other'' 7 \<and>
   data \<lparr>label = ''text'', kind = None, detail = Some ''d'', documentation = None,
         data = Some (String ''1'')\<rparr> \<notin> detail_tags \<and>
   onCompletionResolve \<lparr>label = ''text'', kind = None, detail = Some ''d'', documentation = None,
         data = Some (String ''1'')\<rparr> =
     \<lparr>label = ''text'', kind = None, detail = Some ''d'', documentation = None,
         data = Some (String ''1'')\<rparr> \<and>
   data \<lparr>label = ''bare'', kind = None, detail = None, documentation = None,
         data = None\<rparr> \<notin> detail_tags \<and>
   onCompletionResolve \<lparr>label = ''bare'', kind = None, detail = None, documentation = None,
         data = None\<rparr> =
     \<lparr>label = ''bare'', kind = None, detail = None, documentation = None, data = None\<rparr>"
proof -
  have a: "data (catalog_item ''other'' 7) \<notin> detail_tags"
    by (simp add: catalog_item_def detail_tags_def)
  have b: "data \<lparr>label = ''text'', kind = None, detail = Some ''d'', documentation = None,
         data = Some (String ''1'')\<rparr> \<notin> detail_tags"
    by (simp add: detail_tags_def)
  have c: "data \<lparr>label = ''bare'', kind = None, detail = None, documentation = None,
         data = None\<rparr> \<notin> detail_tags"
    by (simp add: detail_tags_def)
  show ?thesis
    using a b c resolve_unmapped_tag_passes_through [OF a]
      resolve_unmapped_tag_passes_through [OF b] resolve_unmapped_tag_passes_through [OF c]
    by simp
qed

text \<open>
  C10. Whatever the item and its tag, \<open>onCompletionResolve\<close> leaves \<open>label\<close>, \<open>kind\<close>,
  \<open>data\<close> and every field beyond the five of the record (\<open>more\<close>) as they were: the
  result is the input with at most \<open>detail\<close> and \<open>documentation\<close> rewritten.
\<close>

theorem resolve_writes_only_detail_and_documentation:
  "label (onCompletionResolve item) = label item \<and>
   kind (onCompletionResolve item) = kind item \<and>
   data (onCompletionResolve item) = data item \<and>
   CompletionItem.more (onCompletionResolve item) = CompletionItem.more item \<and>
   onCompletionResolve item =
     item\<lparr>detail := detail (onCompletionResolve item),
          documentation := documentation (onCompletionResolve item)\<rparr>"
  by (simp add: onCompletionResolve_def)

lemma catalog_items_without_detail:
  "x \<in> set (onCompletion p) \<Longrightarrow> detail x = None \<and> documentation x = None"
  by (auto simp: onCompletion_def catalog_item_def)

lemma resolve_same_incoming_fields:
  assumes "data a = data b" and "detail a = detail b" and "documentation a = documentation b"
  shows "detail (onCompletionResolve a) = detail (onCompletionResolve b) \<and>
         documentation (onCompletionResolve a) = documentation (onCompletionResolve b)"
  using assms by (simp add: onCompletionResolve_def)

text \<open>
  C7. What \<open>onCompletionResolve\<close> yields as \<open>detail\<close> and \<open>documentation\<close> is a
  function of the tag. For two items with the same tag: if they arrive with the same
  \<open>detail\<close> and \<open>documentation\<close> (with none, as the server lists them), they resolve
  to the same \<open>detail\<close> and \<open>documentation\<close>, whatever the tag; if the tag is one of
  1 to 6, they do so whatever they arrived with; if the tag is none of these, both
  come back exactly as they arrived. In particular any two items of the completion
  list with the same tag resolve to the same \<open>detail\<close> and \<open>documentation\<close>.
\<close>

theorem resolve_is_function_of_tag:
  assumes "data a = data b"
  shows "(detail a = detail b \<and> documentation a = documentation b \<longrightarrow>
            detail (onCompletionResolve a) = detail (onCompletionResolve b) \<and>
            documentation (onCompletionResolve a) = documentation (onCompletionResolve b)) \<and>
         (data a \<in> detail_tags \<longrightarrow>
            detail (onCompletionResolve a) = detail (onCompletionResolve b) \<and>
            documentation (onCompletionResolve a) = documentation (onCompletionResolve b)) \<and>
         (data a \<notin> detail_tags \<longrightarrow>
            onCompletionResolve a = a \<and> onCompletionResolve b = b) \<and>
         (\<forall>x \<in> set (onCompletion p). \<forall>y \<in> set (onCompletion q).
            data x = data y \<longrightarrow>
              detail (onCompletionResolve x) = detail (onCompletionResolve y) \<and>
              documentation (onCompletionResolve x) = documentation (onCompletionResolve y))"
proof (intro conjI impI ballI)
  assume "detail a = detail b \<and> documentation a = documentation b"
  with assms show "detail (onCompletionResolve a) = detail (onCompletionResolve b)"
    and "documentation (onCompletionResolve a) = documentation (onCompletionResolve b)"
    using resolve_same_incoming_fields [of a b] by simp_all
next
  assume "data a \<in> detail_tags"
  with assms show "detail (onCompletionResolve a) = detail (onCompletionResolve b)"
    and "documentation (onCompletionResolve a) = documentation (onCompletionResolve b)"
    by (auto simp: onCompletionResolve_def detail_tags_def)
next
  assume "data a \<notin> detail_tags"
  with assms show "onCompletionResolve a = a" and "onCompletionResolve b = b"
    by (simp_all add: onCompletionResolve_def detail_tags_def)
next
  fix x y
  assume x: "x \<in> set (onCompletion p)" and y: "y \<in> set (onCompletion q)"
    and t: "data x = data y"
  from x y have "detail x = detail y" and "documentation x = documentation y"
    using catalog_items_without_detail [of x p] catalog_items_without_detail [of y q]
    by simp_all
  with t show "detail (onCompletionResolve x) = detail (onCompletionResolve y)"
    and "documentation (onCompletionResolve x) = documentation (onCompletionResolve y)"
    using resolve_same_incoming_fields [of x y] by simp_all
qed

theorem resolve_is_function_of_tag_witness:
  "data (catalog_item ''i8'' 1) = data (catalog_item ''u256'' 1) \<and>
   catalog_item ''i8'' 1 \<in> set (onCompletion
     \<lparr>textDocument_uri = ''file:///a.carbon'', position = \<lparr>line = 0, character = 0\<rparr>\<rparr>) \<and>
   catalog_item ''u256'' 1 \<in> set (onCompletion
     \<lparr>textDocument_uri = ''file:///b.carbon'', position = \<lparr>line = 7, character = 3\<rparr>\<rparr>) \<and>
   detail (onCompletionResolve (catalog_item ''i8'' 1)) =
     detail (onCompletionResolve (catalog_item ''u256'' 1)) \<and>
   documentation (onCompletionResolve (catalog_item ''i8'' 1)) =
     documentation (onCompletionResolve (catalog_item ''u256'' 1)) \<and>
   detail (onCompletionResolve (catalog_item ''i8'' 1)) = Some ''Carbon Signed Integer Type'' \<and>
   data (catalog_item ''x'' 7) = data (catalog_item ''y'' 7) \<and>
   data (catalog_item ''x'' 7) \<notin> detail_tags \<and>
   detail (onCompletionResolve (catalog_item ''x'' 7)) =
     detail (onCompletionResolve (catalog_item ''y'' 7)) \<and>
   documentation (onCompletionResolve (catalog_item ''x'' 7)) =
     documentation (onCompletionResolve (catalog_item ''y'' 7)) \<and>
   onCompletionResolve (catalog_item ''x'' 7) = catalog_item ''x'' 7 \<and>
   data \<lparr>label = ''if'', kind = Some Text, detail = Some ''first'', documentation = None,
         data = Some (Number 6)\<rparr> \<in> detail_tags \<and>
   detail (onCompletionResolve \<lparr>label = ''if'', kind = Some Text, detail = Some ''first'',
         documentation = None, data = Some (Number 6)\<rparr>) =
   detail (onCompletionResolve \<lparr>label = ''fn'', kind = Some Text, detail = Some ''second'',
         documentation = Some ''text'', data = Some (Number 6)\<rparr>) \<and>
   documentation (onCompletionResolve \<lparr>label = ''if'', kind = Some Text, detail = Some ''first'',
         documentation = None, data = Some (Number 6)\<rparr>) =
   documentation (onCompletionResolve \<lparr>label = ''fn'', kind = Some Text, detail = Some ''second'',
         documentation = Some ''text'', data = Some (Number 6)\<rparr>) \<and>
   onCompletionResolve \<lparr>label = ''a'', kind = Some Text, detail = Some ''first'',
         documentation = None, data = Some (Number 7)\<rparr> =
     \<lparr>label = ''a'', kind = Some Text, detail = Some ''first'', documentation = None,
      data = Some (Number 7)\<rparr>"
proof -
  let ?p = "\<lparr>textDocument_uri = ''file:///a.carbon'', position = \<lparr>line = 0, character = 0\<rparr>\<rparr>"
  let ?q = "\<lparr>textDocument_uri = ''file:///b.carbon'', position = \<lparr>line = 7, character = 3\<rparr>\<rparr>"
  let ?if = "\<lparr>label = ''if'', kind = Some Text, detail = Some ''first'', documentation = None,
         data = Some (Number 6)\<rparr>"
  let ?fn = "\<lparr>label = ''fn'', kind = Some Text, detail = Some ''second'',
         documentation = Some ''text'', data = Some (Number 6)\<rparr>"
  let ?a = "\<lparr>label = ''a'', kind = Some Text, detail = Some ''first'',
         documentation = None, data = Some (Number 7)\<rparr>"
  have t1: "data (catalog_item ''i8'' 1) = data (catalog_item ''u256'' 1)"
    by (simp add: catalog_item_def)
  have m1: "catalog_item ''i8'' 1 \<in> set (onCompletion ?p)"
    and m2: "catalog_item ''u256'' 1 \<in> set (onCompletion ?q)"
    by (simp_all add: onCompletion_def)
  have t7: "data (catalog_item ''x'' 7) = data (catalog_item ''y'' 7)"
    by (simp add: catalog_item_def)
  have f7: "detail (catalog_item ''x'' 7) = detail (catalog_item ''y'' 7) \<and>
      documentation (catalog_item ''x'' 7) = documentation (catalog_item ''y'' 7)"
    by (simp add: catalog_item_def)
  have u7: "data (catalog_item ''x'' 7) \<notin> detail_tags"
    by (simp add: catalog_item_def detail_tags_def)
  have t6: "data ?if = data ?fn" by simp
  have m6: "data ?if \<in> detail_tags" by (simp add: detail_tags_def)
  have ta: "data ?a = data ?a" by simp
  have ua: "data ?a \<notin> detail_tags" by (simp add: detail_tags_def)
  have d1: "detail (onCompletionResolve (catalog_item ''i8'' 1)) = Some ''Carbon Signed Integer Type''"
    by (simp add: onCompletionResolve_def catalog_item_def)
  note c1 = resolve_is_function_of_tag [OF t1, of ?p ?q]
  note c7 = resolve_is_function_of_tag [OF t7, of ?p ?q]
  note c6 = resolve_is_function_of_tag [OF t6, of ?p ?q]
  note ca = resolve_is_function_of_tag [OF ta, of ?p ?q]
  from c1 m1 m2 t1 have r1: "detail (onCompletionResolve (catalog_item ''i8'' 1)) =
      detail (onCompletionResolve (catalog_item ''u256'' 1)) \<and>
    documentation (onCompletionResolve (catalog_item ''i8'' 1)) =
      documentation (onCompletionResolve (catalog_item ''u256'' 1))"
    by blast
  from c7 f7 u7 have r7: "detail (onCompletionResolve (catalog_item ''x'' 7)) =
      detail (onCompletionResolve (catalog_item ''y'' 7)) \<and>
    documentation (onCompletionResolve (catalog_item ''x'' 7)) =
      documentation (onCompletionResolve (catalog_item ''y'' 7)) \<and>
    onCompletionResolve (catalog_item ''x'' 7) = catalog_item ''x'' 7"
    by blast
  from c6 m6 have r6: "detail (onCompletionResolve ?if) = detail (onCompletionResolve ?fn) \<and>
      documentation (onCompletionResolve ?if) = documentation (onCompletionResolve ?fn)"
    by blast
  from ca ua have ra: "onCompletionResolve ?a = ?a" by blast
  from t1 m1 m2 r1 d1 t7 u7 r7 m6 r6 ra show ?thesis by (intro conjI) (elim conjE, assumption)+
qed

section \<open>The completion list\<close>

lemma catalog_variables_first:
  "list_all (\<lambda>item. data item \<in> variable_tags) (take 20 (onCompletion p))"
  by (simp add: onCompletion_def catalog_item_def variable_tags_def)

lemma catalog_functions_last:
  "list_all (\<lambda>item. data item = function_tag) (drop 20 (onCompletion p))"
  by (simp add: onCompletion_def catalog_item_def function_tag_def)

lemma catalog_length: "length (onCompletion p) = 30"
  by (simp add: onCompletion_def)

lemma variable_not_function: "function_tag \<notin> variable_tags"
  by (simp add: variable_tags_def function_tag_def)

text \<open>
  C6. \<open>onCompletion\<close> returns the same list of 30 items for every document and every
  position. In it every item tagged as a variable or type keyword (tags 1 to 4) stands
  before every item tagged as a function or control keyword (tag 6), and every item
  carries one of these tags.
\<close>

theorem completion_list_is_static:
  "onCompletion p = onCompletion q \<and>
   length (onCompletion p) = 30 \<and>
   (\<forall>i j. i < length (onCompletion p) \<and> j < length (onCompletion p) \<and>
          data (onCompletion p ! i) \<in> variable_tags \<and>
          data (onCompletion p ! j) = function_tag \<longrightarrow> i < j) \<and>
   (\<forall>i < length (onCompletion p).
      data (onCompletion p ! i) \<in> variable_tags \<or> data (onCompletion p ! i) = function_tag)"
proof -
  let ?c = "onCompletion p"
  have same: "onCompletion p = onCompletion q"
    by (simp add: onCompletion_def)
  have low: "data (?c ! i) \<in> variable_tags" if "i < 20" for i
  proof -
    from that have "i < length (take 20 ?c)" by (simp add: catalog_length)
    with catalog_variables_first [of p] have "data (take 20 ?c ! i) \<in> variable_tags"
      by (simp only: list_all_length)
    with that show ?thesis by simp
  qed
  have high: "data (?c ! j) = function_tag" if "20 \<le> j" "j < 30" for j
  proof -
    from that have "j - 20 < length (drop 20 ?c)" by (simp add: catalog_length)
    with catalog_functions_last [of p] have "data (drop 20 ?c ! (j - 20)) = function_tag"
      by (simp only: list_all_length)
    with that show ?thesis by (simp add: catalog_length)
  qed
  have order: "i < j"
    if "i < length ?c" "j < length ?c" "data (?c ! i) \<in> variable_tags"
      "data (?c ! j) = function_tag" for i j
  proof -
    have "i < 20"
    proof (rule ccontr)
      assume "\<not> i < 20"
      with that(1) have "data (?c ! i) = function_tag"
        using high [of i] by (simp add: catalog_length)
      with that(3) variable_not_function show False by simp
    qed
    moreover have "20 \<le> j"
    proof (rule ccontr)
      assume "\<not> 20 \<le> j"
      then have "data (?c ! j) \<in> variable_tags" using low [of j] by simp
      with that(4) variable_not_function show False by simp
    qed
    ultimately show ?thesis by simp
  qed
  have every: "data (?c ! i) \<in> variable_tags \<or> data (?c ! i) = function_tag"
    if "i < length ?c" for i
    using that low [of i] high [of i] by (cases "i < 20") (simp_all add: catalog_length)
  from same catalog_length order every show ?thesis by blast
qed

theorem completion_list_is_static_witness:
  "onCompletion \<lparr>textDocument_uri = ''file:///a.carbon'', position = \<lparr>line = 0, character = 0\<rparr>\<rparr> =
   onCompletion \<lparr>textDocument_uri = ''file:///b.carbon'', position = \<lparr>line = 7, character = 3\<rparr>\<rparr> \<and>
   (19::nat) < length (onCompletion \<lparr>textDocument_uri = ''file:///a.carbon'',
        position = \<lparr>line = 0, character = 0\<rparr>\<rparr>) \<and>
   (20::nat) < length (onCompletion \<lparr>textDocument_uri = ''file:///a.carbon'',
        position = \<lparr>line = 0, character = 0\<rparr>\<rparr>) \<and>
   data (onCompletion \<lparr>textDocument_uri = ''file:///a.carbon'',
        position = \<lparr>line = 0, character = 0\<rparr>\<rparr> ! 19) \<in> variable_tags \<and>
   data (onCompletion \<lparr>textDocument_uri = ''file:///a.carbon'',
        position = \<lparr>line = 0, character = 0\<rparr>\<rparr> ! 20) = function_tag \<and>
   label (onCompletion \<lparr>textDocument_uri = ''file:///a.carbon'',
        position = \<lparr>line = 0, character = 0\<rparr>\<rparr> ! 19) = ''u256'' \<and>
   label (onCompletion \<lparr>textDocument_uri = ''file:///a.carbon'',
        position = \<lparr>line = 0, character = 0\<rparr>\<rparr> ! 20) = ''if'' \<and>
   (19::nat) < 20"
  using completion_list_is_static
    [of "\<lparr>textDocument_uri = ''file:///a.carbon'', position = \<lparr>line = 0, character = 0\<rparr>\<rparr>"
        "\<lparr>textDocument_uri = ''file:///b.carbon'', position = \<lparr>line = 7, character = 3\<rparr>\<rparr>"]
  by (simp add: onCompletion_def catalog_item_def variable_tags_def function_tag_def)

section \<open>The settings cache\<close>

lemma getDocumentSettings_miss:
  assumes "hasConfigurationCapability s" and "documentSettings s r = None"
  shows "getDocumentSettings r s =
           (Requested (length (requests s)),
            s\<lparr>requests := requests s @ [(r, ''languageServerExample'')],
              documentSettings := (documentSettings s)(r \<mapsto> Requested (length (requests s)))\<rparr>)"
  using assms by (simp add: getDocumentSettings_def getConfiguration_def)

lemma getDocumentSettings_hit:
  assumes "hasConfigurationCapability s" and "documentSettings s r = Some p"
  shows "getDocumentSettings r s = (p, s)"
  using assms by (simp add: getDocumentSettings_def)

text \<open>
  C4. Without the configuration capability, \<open>getDocumentSettings\<close> returns a promise
  already resolved with the global settings and changes nothing (no request is sent).
  With it, a miss sends exactly one \<open>getConfiguration\<close> request for the resource,
  stores the promise of that request under the resource and returns it; a hit returns
  the stored promise and changes nothing.
\<close>

theorem get_document_settings_cache:
  "(\<not> hasConfigurationCapability s \<longrightarrow>
      getDocumentSettings resource s = (Resolved (globalSettings s), s) \<and>
      await client (Resolved (globalSettings s)) = Fulfilled (Some (globalSettings s))) \<and>
   (hasConfigurationCapability s \<and> documentSettings s resource = None \<longrightarrow>
      getDocumentSettings resource s =
        (Requested (length (requests s)),
         s\<lparr>requests := requests s @ [(resource, ''languageServerExample'')],
           documentSettings := (documentSettings s)(resource \<mapsto> Requested (length (requests s)))\<rparr>)) \<and>
   (hasConfigurationCapability s \<and> documentSettings s resource = Some result \<longrightarrow>
      getDocumentSettings resource s = (result, s))"
  by (simp add: getDocumentSettings_def getConfiguration_def await_def)

theorem get_document_settings_cache_witness:
  "\<not> hasConfigurationCapability initial \<and>
   getDocumentSettings ''file:///a.carbon'' initial = (Resolved defaultSettings, initial) \<and>
   hasConfigurationCapability (initial\<lparr>hasConfigurationCapability := True\<rparr>) \<and>
   documentSettings (initial\<lparr>hasConfigurationCapability := True\<rparr>) ''file:///a.carbon'' = None \<and>
   fst (getDocumentSettings ''file:///a.carbon'' (initial\<lparr>hasConfigurationCapability := True\<rparr>)) =
     Requested 0 \<and>
   requests (snd (getDocumentSettings ''file:///a.carbon''
       (initial\<lparr>hasConfigurationCapability := True\<rparr>))) =
     [(''file:///a.carbon'', ''languageServerExample'')] \<and>
   documentSettings (snd (getDocumentSettings ''file:///a.carbon''
       (initial\<lparr>hasConfigurationCapability := True\<rparr>))) ''file:///a.carbon'' =
     Some (Requested 0) \<and>
   getDocumentSettings ''file:///a.carbon''
       (initial\<lparr>hasConfigurationCapability := True,
                documentSettings := [''file:///a.carbon'' \<mapsto> Requested 0],
                requests := [(''file:///a.carbon'', ''languageServerExample'')]\<rparr>) =
     (Requested 0,
      initial\<lparr>hasConfigurationCapability := True,
                documentSettings := [''file:///a.carbon'' \<mapsto> Requested 0],
                requests := [(''file:///a.carbon'', ''languageServerExample'')]\<rparr>)"
  using get_document_settings_cache [of initial "''file:///a.carbon''" rejecting_client "Requested 0"]
    get_document_settings_cache [of "initial\<lparr>hasConfigurationCapability := True\<rparr>"
      "''file:///a.carbon''" rejecting_client "Requested 0"]
    get_document_settings_cache [of "initial\<lparr>hasConfigurationCapability := True,
                documentSettings := [''file:///a.carbon'' \<mapsto> Requested 0],
                requests := [(''file:///a.carbon'', ''languageServerExample'')]\<rparr>"
      "''file:///a.carbon''" rejecting_client "Requested 0"]
  by (simp add: initial_def)

section \<open>The cache holds entries for open documents only\<close>

lemma getDocumentSettings_frame:
  "documents (snd (getDocumentSettings r s)) = documents s \<and>
   dom (documentSettings (snd (getDocumentSettings r s))) \<subseteq> insert r (dom (documentSettings s))"
  by (auto simp: getDocumentSettings_def getConfiguration_def split: option.splits)

lemma validateTextDocument_frame:
  "documents (validateTextDocument client d s) = documents s \<and>
   dom (documentSettings (validateTextDocument client d s)) \<subseteq> insert (uri d) (dom (documentSettings s))"
proof -
  obtain p s1 where g: "getDocumentSettings (uri d) s = (p, s1)"
    by (cases "getDocumentSettings (uri d) s")
  from getDocumentSettings_frame [of "uri d" s] g
  have "documents s1 = documents s"
    and "dom (documentSettings s1) \<subseteq> insert (uri d) (dom (documentSettings s))"
    by simp_all
  then show ?thesis
    using g by (auto simp: validateTextDocument_def sendDiagnostics_def split: settlement.splits)
qed

lemma fold_validate_frame:
  "documents (fold (validateTextDocument client) ds s) = documents s \<and>
   dom (documentSettings (fold (validateTextDocument client) ds s))
     \<subseteq> uri ` set ds \<union> dom (documentSettings s)"
proof (induction ds arbitrary: s)
  case Nil
  then show ?case by simp
next
  case (Cons d ds)
  let ?s = "validateTextDocument client d s"
  have a: "documents (fold (validateTextDocument client) ds ?s) = documents ?s"
    and b: "dom (documentSettings (fold (validateTextDocument client) ds ?s))
              \<subseteq> uri ` set ds \<union> dom (documentSettings ?s)"
    using Cons.IH [of ?s] by simp_all
  have c: "documents ?s = documents s"
    and d: "dom (documentSettings ?s) \<subseteq> insert (uri d) (dom (documentSettings s))"
    using validateTextDocument_frame [of client d s] by simp_all
  have "dom (documentSettings (fold (validateTextDocument client) ds ?s))
          \<subseteq> uri ` set (d # ds) \<union> dom (documentSettings s)"
    using b d by (simp only: list.set image_insert) blast
  with a c show ?case by simp
qed

lemma keyed_by_uri_update:
  "keyed_by_uri ds \<Longrightarrow> uri d = k \<Longrightarrow> keyed_by_uri (AList.update k d ds)"
  by (induction ds) (auto simp: keyed_by_uri_def)

lemma keyed_by_uri_delete: "keyed_by_uri ds \<Longrightarrow> keyed_by_uri (AList.delete k ds)"
  by (induction ds) (auto simp: keyed_by_uri_def)

lemma keyed_by_uri_values: "keyed_by_uri ds \<Longrightarrow> uri ` set (map snd ds) \<subseteq> fst ` set ds"
  by (induction ds) (auto simp: keyed_by_uri_def)

lemma keyed_by_uri_map_of: "keyed_by_uri ds \<Longrightarrow> map_of ds k = Some d \<Longrightarrow> uri d = k"
  by (induction ds) (auto simp: keyed_by_uri_def split: if_splits)

lemma keys_delete: "fst ` set (AList.delete k ds) = fst ` set ds - {k}"
  by (induction ds) auto

lemma onDidChangeConfiguration_Inr:
  assumes "onDidChangeConfiguration client c s = Inr s2"
  shows "\<exists>s1. s2 = fold (validateTextDocument client) (map snd (documents s1)) s1 \<and>
              documents s1 = documents s \<and>
              dom (documentSettings s1) \<subseteq> dom (documentSettings s)"
proof (cases "hasConfigurationCapability s")
  case True
  with assms have
    "s2 = fold (validateTextDocument client)
            (map snd (documents (s\<lparr>documentSettings := Map.empty\<rparr>)))
            (s\<lparr>documentSettings := Map.empty\<rparr>)"
    by (simp add: onDidChangeConfiguration_def)
  then show ?thesis by (intro exI [of _ "s\<lparr>documentSettings := Map.empty\<rparr>"]) simp
next
  case False
  show ?thesis
  proof (cases c)
    case None
    with False assms show ?thesis by (simp add: onDidChangeConfiguration_def)
  next
    case (Some l)
    let ?s = "s\<lparr>globalSettings := (case l of None \<Rightarrow> defaultSettings | Some v \<Rightarrow> v)\<rparr>"
    from Some False assms have "s2 = fold (validateTextDocument client) (map snd (documents ?s)) ?s"
      by (simp add: onDidChangeConfiguration_def)
    then show ?thesis by (intro exI [of _ ?s]) simp
  qed
qed

lemma deliver_cache_within_open:
  assumes "cache_within_open s"
  shows "cache_within_open (deliver client n s)"
proof (cases n)
  case (Initialize c)
  with assms show ?thesis
    by (simp add: deliver_def onInitialize_def cache_within_open_def Let_def)
next
  case (DidOpenTextDocument d)
  let ?s = "s\<lparr>documents := AList.update (uri d) d (documents s)\<rparr>"
  from validateTextDocument_frame [of client d ?s] assms
  show ?thesis
    unfolding DidOpenTextDocument
    by (auto simp: deliver_def onDidChangeContent_def cache_within_open_def
        dom_update keyed_by_uri_update)
next
  case (DidChangeTextDocument u v t)
  show ?thesis
  proof (cases "map_of (documents s) u")
    case None
    with assms show ?thesis by (simp add: deliver_def DidChangeTextDocument)
  next
    case (Some d)
    let ?d = "d\<lparr>version := v, getText := t\<rparr>"
    let ?s = "s\<lparr>documents := AList.update u ?d (documents s)\<rparr>"
    from assms Some have "uri d = u"
      using keyed_by_uri_map_of [of "documents s" u d] by (simp add: cache_within_open_def)
    then have u: "uri ?d = u" by simp
    from validateTextDocument_frame [of client ?d ?s] assms u
    have "cache_within_open (validateTextDocument client ?d ?s)"
      by (auto simp: cache_within_open_def dom_update keyed_by_uri_update)
    with assms Some show ?thesis
      by (simp add: deliver_def DidChangeTextDocument onDidChangeContent_def Let_def)
  qed
next
  case (DidCloseTextDocument u)
  show ?thesis
  proof (cases "map_of (documents s) u")
    case None
    with assms show ?thesis by (simp add: deliver_def DidCloseTextDocument)
  next
    case (Some d)
    with assms have "uri d = u"
      using keyed_by_uri_map_of [of "documents s" u d] by (simp add: cache_within_open_def)
    with assms Some show ?thesis
      by (auto simp: deliver_def DidCloseTextDocument onDidClose_def cache_within_open_def
          keys_delete keyed_by_uri_delete)
  qed
next
  case (DidChangeConfiguration c)
  show ?thesis
  proof (cases "onDidChangeConfiguration client c s")
    case (Inl e)
    with assms show ?thesis by (simp add: deliver_def DidChangeConfiguration)
  next
    case (Inr s2)
    from onDidChangeConfiguration_Inr [OF Inr] obtain s1 where s2: "s2 = fold (validateTextDocument client) (map snd (documents s1)) s1"
      and s1: "documents s1 = documents s" "dom (documentSettings s1) \<subseteq> dom (documentSettings s)"
      by (elim exE conjE)
    have k: "keyed_by_uri (documents s)" and c: "dom (documentSettings s) \<subseteq> fst ` set (documents s)"
      using assms by (simp_all add: cache_within_open_def)
    have v: "uri ` set (map snd (documents s)) \<subseteq> fst ` set (documents s)"
      using k by (rule keyed_by_uri_values)
    have f: "documents s2 = documents s"
      and g: "dom (documentSettings s2)
                \<subseteq> uri ` set (map snd (documents s)) \<union> dom (documentSettings s1)"
    proof -
      note fr = fold_validate_frame [of client "map snd (documents s1)" s1, folded s2]
      from fr s1(1) show "documents s2 = documents s" by simp
      from fr have "dom (documentSettings s2)
                \<subseteq> uri ` set (map snd (documents s1)) \<union> dom (documentSettings s1)" ..
      then show "dom (documentSettings s2)
                \<subseteq> uri ` set (map snd (documents s)) \<union> dom (documentSettings s1)"
        by (simp only: s1(1))
    qed
    from s1(2) c have "dom (documentSettings s1) \<subseteq> fst ` set (documents s)"
      by (rule subset_trans)
    with v have "uri ` set (map snd (documents s)) \<union> dom (documentSettings s1)
                   \<subseteq> fst ` set (documents s)"
      by (rule Un_least)
    with g have "dom (documentSettings s2) \<subseteq> fst ` set (documents s)"
      by (rule subset_trans)
    with f k have "cache_within_open s2"
      by (simp add: cache_within_open_def)
    with Inr show ?thesis by (simp add: deliver_def DidChangeConfiguration)
  qed
next
  case DidChangeWatchedFiles
  with assms show ?thesis by (simp add: deliver_def)
qed

lemma run_cache_within_open:
  "cache_within_open s \<Longrightarrow> cache_within_open (run client ns s)"
  unfolding run_def by (induction ns arbitrary: s) (simp_all add: deliver_cache_within_open)

lemma initial_cache_within_open: "cache_within_open initial"
  by (simp add: cache_within_open_def initial_def keyed_by_uri_def)

lemma deliver_close_forgets:
  assumes "cache_within_open s"
  shows "documentSettings (deliver client (DidCloseTextDocument u) s) u = None \<and>
         map_of (documents (deliver client (DidCloseTextDocument u) s)) u = None"
proof (cases "map_of (documents s) u")
  case None
  then have "u \<notin> fst ` set (documents s)" by (simp add: map_of_eq_None_iff)
  with assms have "u \<notin> dom (documentSettings s)"
    unfolding cache_within_open_def by blast
  then have "documentSettings s u = None" by (simp add: domIff)
  with None show ?thesis by (simp add: deliver_def)
next
  case (Some d)
  from assms Some have "uri d = u"
    using keyed_by_uri_map_of [of "documents s" u d] by (simp add: cache_within_open_def)
  with Some show ?thesis
    by (simp add: deliver_def onDidClose_def delete_conv')
qed

text \<open>
  C9. \<open>onDidClose\<close> removes the entry of the closed document from the settings cache
  and no other entry. The next \<open>getDocumentSettings\<close> for that URI does what it does
  for a URI that was never opened: with the configuration capability it sends a fresh
  request and caches its promise, without it it returns the global settings. In every
  state the session reaches from the initial one, the cache has entries for open
  documents only, and once a close notification for \<open>u\<close> is delivered \<open>u\<close> is neither
  open nor cached.
\<close>

theorem close_forgets_settings:
  "documentSettings (onDidClose d s) (uri d) = None \<and>
   (\<forall>u. u \<noteq> uri d \<longrightarrow> documentSettings (onDidClose d s) u = documentSettings s u) \<and>
   (hasConfigurationCapability s \<longrightarrow>
      getDocumentSettings (uri d) (onDidClose d s) =
        (Requested (length (requests s)),
         s\<lparr>requests := requests s @ [(uri d, ''languageServerExample'')],
           documentSettings := (documentSettings s)(uri d \<mapsto> Requested (length (requests s)))\<rparr>)) \<and>
   (\<not> hasConfigurationCapability s \<longrightarrow>
      fst (getDocumentSettings (uri d) (onDidClose d s)) = Resolved (globalSettings s)) \<and>
   dom (documentSettings (run client ns initial)) \<subseteq> fst ` set (documents (run client ns initial)) \<and>
   documentSettings (deliver client (DidCloseTextDocument u) (run client ns initial)) u = None \<and>
   map_of (documents (deliver client (DidCloseTextDocument u) (run client ns initial))) u = None"
proof -
  have a: "documentSettings (onDidClose d s) (uri d) = None"
    by (simp add: onDidClose_def)
  have b: "\<forall>u. u \<noteq> uri d \<longrightarrow> documentSettings (onDidClose d s) u = documentSettings s u"
    by (simp add: onDidClose_def)
  have c: "getDocumentSettings (uri d) (onDidClose d s) =
        (Requested (length (requests s)),
         s\<lparr>requests := requests s @ [(uri d, ''languageServerExample'')],
           documentSettings := (documentSettings s)(uri d \<mapsto> Requested (length (requests s)))\<rparr>)"
    if "hasConfigurationCapability s"
    using that by (simp add: getDocumentSettings_def getConfiguration_def onDidClose_def)
  have e: "fst (getDocumentSettings (uri d) (onDidClose d s)) = Resolved (globalSettings s)"
    if "\<not> hasConfigurationCapability s"
    using that by (simp add: getDocumentSettings_def onDidClose_def)
  have inv: "cache_within_open (run client ns initial)"
    using initial_cache_within_open by (rule run_cache_within_open)
  then have f: "dom (documentSettings (run client ns initial))
      \<subseteq> fst ` set (documents (run client ns initial))"
    by (simp add: cache_within_open_def)
  from a b c e f deliver_close_forgets [OF inv, of client u] show ?thesis by blast
qed

theorem close_forgets_settings_witness:
  "hasConfigurationCapability (run null_client
     [Initialize configurable,
      DidOpenTextDocument \<lparr>uri = ''file:///a.carbon'', version = 1, getText = ''hello''\<rparr>] initial) \<and>
   documentSettings (run null_client
     [Initialize configurable,
      DidOpenTextDocument \<lparr>uri = ''file:///a.carbon'', version = 1, getText = ''hello''\<rparr>] initial)
     ''file:///a.carbon'' = Some (Requested 0) \<and>
   documentSettings (deliver null_client (DidCloseTextDocument ''file:///a.carbon'')
     (run null_client
       [Initialize configurable,
        DidOpenTextDocument \<lparr>uri = ''file:///a.carbon'', version = 1, getText = ''hello''\<rparr>] initial))
     ''file:///a.carbon'' = None \<and>
   fst (getDocumentSettings ''file:///a.carbon''
     (deliver null_client (DidCloseTextDocument ''file:///a.carbon'')
       (run null_client
         [Initialize configurable,
          DidOpenTextDocument \<lparr>uri = ''file:///a.carbon'', version = 1, getText = ''hello''\<rparr>]
          initial))) = Requested 1"
proof -
  let ?d = "\<lparr>uri = ''file:///a.carbon'', version = 1, getText = ''hello''\<rparr>"
  let ?s = "run null_client [Initialize configurable, DidOpenTextDocument ?d] initial"
  let ?s1 = "initial\<lparr>hasConfigurationCapability := True,
      documentSettings := [''file:///a.carbon'' \<mapsto> Requested 0],
      documents := [(''file:///a.carbon'', ?d)],
      requests := [(''file:///a.carbon'', ''languageServerExample'')],
      published := [\<lparr>publish_uri = ''file:///a.carbon'', diagnostics = []\<rparr>]\<rparr>"
  have s: "?s = ?s1"
    by (simp add: run_def deliver_def onInitialize_def configurable_def onDidChangeContent_def
        validateTextDocument_def getDocumentSettings_def getConfiguration_def await_def
        null_client_def sendDiagnostics_def initial_def)
  have t: "deliver null_client (DidCloseTextDocument ''file:///a.carbon'') ?s1 =
      initial\<lparr>hasConfigurationCapability := True,
      documentSettings := Map.empty,
      documents := [],
      requests := [(''file:///a.carbon'', ''languageServerExample'')],
      published := [\<lparr>publish_uri = ''file:///a.carbon'', diagnostics = []\<rparr>]\<rparr>"
    by (simp add: deliver_def onDidClose_def initial_def)
  from close_forgets_settings [of ?d ?s null_client
      "[Initialize configurable, DidOpenTextDocument ?d]" "''file:///a.carbon''"]
  show ?thesis
    unfolding s t by (simp add: getDocumentSettings_def getConfiguration_def initial_def)
qed

section \<open>Validation\<close>

lemma validateTextDocument_eq:
  "validateTextDocument client d s =
     (case await client (fst (getDocumentSettings (uri d) s)) of
        Rejected \<Rightarrow> snd (getDocumentSettings (uri d) s)
      | Fulfilled v \<Rightarrow>
          sendDiagnostics \<lparr>publish_uri = uri d, diagnostics = []\<rparr>
            (snd (getDocumentSettings (uri d) s)))"
  by (simp add: validateTextDocument_def split_beta Let_def split: settlement.splits)

lemma validateTextDocument_rejected:
  assumes "await client (fst (getDocumentSettings (uri d) s)) = Rejected"
  shows "validateTextDocument client d s = snd (getDocumentSettings (uri d) s)"
  using assms by (simp add: validateTextDocument_eq)

lemma validateTextDocument_fulfilled:
  assumes "await client (fst (getDocumentSettings (uri d) s)) = Fulfilled v"
  shows "validateTextDocument client d s =
           sendDiagnostics \<lparr>publish_uri = uri d, diagnostics = []\<rparr>
             (snd (getDocumentSettings (uri d) s))"
  using assms by (simp add: validateTextDocument_eq)

lemma getDocumentSettings_published:
  "published (snd (getDocumentSettings r s)) = published s"
  by (simp add: getDocumentSettings_def getConfiguration_def split: option.splits)

text \<open>
  C5, as stated: every call of \<open>validateTextDocument\<close> ends with exactly one
  \<open>sendDiagnostics\<close>. It fails when the client rejects the configuration request:
  \<open>await\<close> throws, and the call ends with nothing sent.
\<close>

theorem validate_publishes_counterexample:
  "published (validateTextDocument rejecting_client
      \<lparr>uri = ''file:///a.carbon'', version = 1, getText = ''hello''\<rparr>
      (initial\<lparr>hasConfigurationCapability := True\<rparr>)) = []"
  by (simp add: validateTextDocument_def getDocumentSettings_def getConfiguration_def
      await_def initial_def rejecting_client_def)

text \<open>
  C5, amended: a call of \<open>validateTextDocument\<close> whose settings promise is fulfilled
  (it always is without the configuration capability) sends exactly one
  \<open>sendDiagnostics\<close> for the document's URI, with no test on the sequence being empty;
  a call whose settings promise is rejected sends none.
\<close>

theorem validate_publishes_once_when_fulfilled:
  "(await client (fst (getDocumentSettings (uri d) s)) \<noteq> Rejected \<longrightarrow>
      published (validateTextDocument client d s) =
        published s @ [\<lparr>publish_uri = uri d, diagnostics = []\<rparr>]) \<and>
   (await client (fst (getDocumentSettings (uri d) s)) = Rejected \<longrightarrow>
      published (validateTextDocument client d s) = published s) \<and>
   (\<not> hasConfigurationCapability s \<longrightarrow>
      published (validateTextDocument client d s) =
        published s @ [\<lparr>publish_uri = uri d, diagnostics = []\<rparr>])"
proof (intro conjI impI)
  assume "await client (fst (getDocumentSettings (uri d) s)) \<noteq> Rejected"
  then obtain v where "await client (fst (getDocumentSettings (uri d) s)) = Fulfilled v"
    by (cases "await client (fst (getDocumentSettings (uri d) s))") simp_all
  then show "published (validateTextDocument client d s) =
        published s @ [\<lparr>publish_uri = uri d, diagnostics = []\<rparr>]"
    by (simp add: validateTextDocument_fulfilled sendDiagnostics_def getDocumentSettings_published)
next
  assume "await client (fst (getDocumentSettings (uri d) s)) = Rejected"
  then show "published (validateTextDocument client d s) = published s"
    by (simp add: validateTextDocument_rejected getDocumentSettings_published)
next
  assume "\<not> hasConfigurationCapability s"
  then have "await client (fst (getDocumentSettings (uri d) s)) = Fulfilled (Some (globalSettings s))"
    by (simp add: getDocumentSettings_def await_def)
  then show "published (validateTextDocument client d s) =
        published s @ [\<lparr>publish_uri = uri d, diagnostics = []\<rparr>]"
    by (simp add: validateTextDocument_fulfilled sendDiagnostics_def getDocumentSettings_published)
qed

theorem validate_publishes_once_when_fulfilled_witness:
  "published (validateTextDocument rejecting_client
      \<lparr>uri = ''file:///a.carbon'', version = 1, getText = ''hello''\<rparr> initial) =
     [\<lparr>publish_uri = ''file:///a.carbon'', diagnostics = []\<rparr>] \<and>
   published (validateTextDocument null_client
      \<lparr>uri = ''file:///a.carbon'', version = 1, getText = ''hello''\<rparr>
      (initial\<lparr>hasConfigurationCapability := True\<rparr>)) =
     [\<lparr>publish_uri = ''file:///a.carbon'', diagnostics = []\<rparr>] \<and>
   published (validateTextDocument rejecting_client
      \<lparr>uri = ''file:///a.carbon'', version = 1, getText = ''hello''\<rparr>
      (initial\<lparr>hasConfigurationCapability := True\<rparr>)) = []"
  using validate_publishes_once_when_fulfilled [of rejecting_client
      "\<lparr>uri = ''file:///a.carbon'', version = 1, getText = ''hello''\<rparr>" initial]
    validate_publishes_once_when_fulfilled [of null_client
      "\<lparr>uri = ''file:///a.carbon'', version = 1, getText = ''hello''\<rparr>"
      "initial\<lparr>hasConfigurationCapability := True\<rparr>"]
    validate_publishes_once_when_fulfilled [of rejecting_client
      "\<lparr>uri = ''file:///a.carbon'', version = 1, getText = ''hello''\<rparr>"
      "initial\<lparr>hasConfigurationCapability := True\<rparr>"]
  by (simp add: getDocumentSettings_def getConfiguration_def await_def initial_def
      rejecting_client_def null_client_def)

text \<open>
  C1, as stated: the published diagnostics are those of the scan for upper-case words,
  cut at the maximum. On the text \<open>HELLO WORLD\<close> with the default maximum of 1000 the
  scan has two matches, and \<open>validateTextDocument\<close> publishes an empty sequence: the
  loop is inside a comment.
\<close>

theorem validate_scan_counterexample:
  "published (validateTextDocument rejecting_client
      \<lparr>uri = ''file:///a.carbon'', version = 2, getText = ''HELLO WORLD''\<rparr> initial) =
     [\<lparr>publish_uri = ''file:///a.carbon'', diagnostics = []\<rparr>] \<and>
   globalSettings initial = \<lparr>maxNumberOfProblems = 1000\<rparr> \<and>
   map message (scan_in_comment positionAt_one_line False
      \<lparr>maxNumberOfProblems = 1000\<rparr>
      \<lparr>uri = ''file:///a.carbon'', version = 2, getText = ''HELLO WORLD''\<rparr>) =
     [''HELLO is all uppercase.'', ''WORLD is all uppercase.'']"
  by (simp add: validateTextDocument_def getDocumentSettings_def await_def initial_def
      sendDiagnostics_def defaultSettings_def scan_in_comment_def is_upper_def is_word_char_def)

text \<open>
  C1, amended: \<open>validateTextDocument\<close> scans nothing. What it publishes, if anything,
  is one notification for the document's URI with the empty diagnostic sequence,
  whatever the text of the document and whatever the settings; the text has no
  influence on what is sent.
\<close>

theorem validate_publishes_no_diagnostics:
  "(published (validateTextDocument client d s) = published s \<or>
    published (validateTextDocument client d s) =
      published s @ [\<lparr>publish_uri = uri d, diagnostics = []\<rparr>]) \<and>
   published (validateTextDocument client (d\<lparr>getText := t\<rparr>) s) =
     published (validateTextDocument client d s)"
proof -
  have "published (validateTextDocument client e s) =
          (case await client (fst (getDocumentSettings (uri e) s)) of
             Rejected \<Rightarrow> published s
           | Fulfilled v \<Rightarrow> published s @ [\<lparr>publish_uri = uri e, diagnostics = []\<rparr>])" for e
    by (simp add: validateTextDocument_eq sendDiagnostics_def getDocumentSettings_published
        split: settlement.splits)
  from this [of d] this [of "d\<lparr>getText := t\<rparr>"] show ?thesis
    by (simp split: settlement.splits)
qed

theorem validate_publishes_no_diagnostics_witness:
  "published (validateTextDocument null_client
      \<lparr>uri = ''file:///a.carbon'', version = 2, getText = ''HELLO WORLD''\<rparr>
      (initial\<lparr>hasConfigurationCapability := True\<rparr>)) =
     [\<lparr>publish_uri = ''file:///a.carbon'', diagnostics = []\<rparr>] \<and>
   published (validateTextDocument null_client
      \<lparr>uri = ''file:///a.carbon'', version = 2, getText = ''hello''\<rparr>
      (initial\<lparr>hasConfigurationCapability := True\<rparr>)) =
     [\<lparr>publish_uri = ''file:///a.carbon'', diagnostics = []\<rparr>]"
proof -
  let ?d = "\<lparr>uri = ''file:///a.carbon'', version = 2, getText = ''HELLO WORLD''\<rparr>"
  let ?s = "initial\<lparr>hasConfigurationCapability := True\<rparr>"
  have "published (validateTextDocument null_client ?d ?s) \<noteq> published ?s"
    by (simp add: validateTextDocument_eq getDocumentSettings_def getConfiguration_def
        await_def null_client_def sendDiagnostics_def initial_def)
  with validate_publishes_no_diagnostics [of null_client ?d ?s "''hello''"]
  show ?thesis by (simp add: initial_def)
qed

text \<open>
  C2, as stated: a failed resolution is not cached, a default replaces it for the pass,
  and the next lookup may ask again. Here the client rejects the first request and
  would answer a second one. The rejected promise stays in the cache, the pass
  publishes nothing, and a second pass sends no second request and publishes nothing
  either.
\<close>

theorem failed_resolution_counterexample:
  "failing_once_client 0 = Rejected \<and>
   failing_once_client 1 = Fulfilled (Some defaultSettings) \<and>
   documentSettings
     (validateTextDocument failing_once_client
        \<lparr>uri = ''file:///a.carbon'', version = 1, getText = ''hello''\<rparr>
        (initial\<lparr>hasConfigurationCapability := True\<rparr>)) ''file:///a.carbon'' =
     Some (Requested 0) \<and>
   published
     (validateTextDocument failing_once_client
        \<lparr>uri = ''file:///a.carbon'', version = 1, getText = ''hello''\<rparr>
        (initial\<lparr>hasConfigurationCapability := True\<rparr>)) = [] \<and>
   requests
     (validateTextDocument failing_once_client
        \<lparr>uri = ''file:///a.carbon'', version = 1, getText = ''hello''\<rparr>
        (validateTextDocument failing_once_client
           \<lparr>uri = ''file:///a.carbon'', version = 1, getText = ''hello''\<rparr>
           (initial\<lparr>hasConfigurationCapability := True\<rparr>))) =
     [(''file:///a.carbon'', ''languageServerExample'')] \<and>
   published
     (validateTextDocument failing_once_client
        \<lparr>uri = ''file:///a.carbon'', version = 1, getText = ''hello''\<rparr>
        (validateTextDocument failing_once_client
           \<lparr>uri = ''file:///a.carbon'', version = 1, getText = ''hello''\<rparr>
           (initial\<lparr>hasConfigurationCapability := True\<rparr>))) = []"
  by (simp add: failing_once_client_def validateTextDocument_def getDocumentSettings_def
      getConfiguration_def await_def initial_def)

text \<open>
  C2, amended: with the configuration capability, the promise of the request sent on a
  miss stays cached under the URI however it settles: a later \<open>getDocumentSettings\<close>
  for the URI returns the same promise and sends no request. When the promise is
  rejected the pass publishes nothing, and so does every later pass, which changes
  nothing at all; when it is fulfilled with \<open>null\<close> the pass publishes the empty
  sequence. No default is put in its place. Only once the entry is removed, as
  \<open>onDidClose\<close> does, the next lookup sends a fresh request.
\<close>

theorem failed_resolution_stays_cached:
  assumes "hasConfigurationCapability s" and "documentSettings s (uri d) = None"
  shows "documentSettings (validateTextDocument client d s) (uri d) =
           Some (Requested (length (requests s))) \<and>
         requests (validateTextDocument client d s) =
           requests s @ [(uri d, ''languageServerExample'')] \<and>
         getDocumentSettings (uri d) (validateTextDocument client d s) =
           (Requested (length (requests s)), validateTextDocument client d s) \<and>
         (client (length (requests s)) = Rejected \<longrightarrow>
            published (validateTextDocument client d s) = published s \<and>
            validateTextDocument client d (validateTextDocument client d s) =
              validateTextDocument client d s) \<and>
         (client (length (requests s)) = Fulfilled None \<longrightarrow>
            published (validateTextDocument client d s) =
              published s @ [\<lparr>publish_uri = uri d, diagnostics = []\<rparr>]) \<and>
         fst (getDocumentSettings (uri d) (onDidClose d (validateTextDocument client d s))) =
           Requested (Suc (length (requests s)))"
proof -
  let ?p = "Requested (length (requests s))"
  let ?s1 = "s\<lparr>requests := requests s @ [(uri d, ''languageServerExample'')],
              documentSettings := (documentSettings s)(uri d \<mapsto> ?p)\<rparr>"
  let ?v = "validateTextDocument client d s"
  have g: "getDocumentSettings (uri d) s = (?p, ?s1)"
    using assms by (rule getDocumentSettings_miss)
  have aw: "await client ?p = client (length (requests s))"
    by (simp add: await_def)
  have v: "?v = (case client (length (requests s)) of
                   Rejected \<Rightarrow> ?s1
                 | Fulfilled x \<Rightarrow> sendDiagnostics \<lparr>publish_uri = uri d, diagnostics = []\<rparr> ?s1)"
    by (simp add: validateTextDocument_eq g aw split: settlement.splits)
  have cap: "hasConfigurationCapability ?v"
    using assms(1) by (simp add: v sendDiagnostics_def split: settlement.splits)
  have c: "documentSettings ?v (uri d) = Some ?p"
    by (simp add: v sendDiagnostics_def split: settlement.splits)
  have r: "requests ?v = requests s @ [(uri d, ''languageServerExample'')]"
    by (simp add: v sendDiagnostics_def split: settlement.splits)
  have hit: "getDocumentSettings (uri d) ?v = (?p, ?v)"
    using cap c by (rule getDocumentSettings_hit)
  have rej: "published ?v = published s \<and> validateTextDocument client d ?v = ?v"
    if "client (length (requests s)) = Rejected"
    using that by (simp add: validateTextDocument_eq [of client d ?v] hit aw) (simp add: v)
  have nul: "published ?v = published s @ [\<lparr>publish_uri = uri d, diagnostics = []\<rparr>]"
    if "client (length (requests s)) = Fulfilled None"
    using that by (simp add: v sendDiagnostics_def)
  have "hasConfigurationCapability (onDidClose d ?v)"
    and "documentSettings (onDidClose d ?v) (uri d) = None"
    and "requests (onDidClose d ?v) = requests ?v"
    using cap by (simp_all add: onDidClose_def)
  then have fresh: "fst (getDocumentSettings (uri d) (onDidClose d ?v)) =
      Requested (Suc (length (requests s)))"
    by (simp add: getDocumentSettings_miss r)
  from c r hit rej nul fresh show ?thesis by blast
qed

theorem failed_resolution_stays_cached_witness:
  "hasConfigurationCapability (initial\<lparr>hasConfigurationCapability := True\<rparr>) \<and>
   documentSettings (initial\<lparr>hasConfigurationCapability := True\<rparr>)
     (uri \<lparr>uri = ''file:///a.carbon'', version = 1, getText = ''hello''\<rparr>) = None \<and>
   rejecting_client (length (requests (initial\<lparr>hasConfigurationCapability := True\<rparr>))) = Rejected \<and>
   documentSettings
     (validateTextDocument rejecting_client
        \<lparr>uri = ''file:///a.carbon'', version = 1, getText = ''hello''\<rparr>
        (initial\<lparr>hasConfigurationCapability := True\<rparr>)) ''file:///a.carbon'' =
     Some (Requested 0) \<and>
   published
     (validateTextDocument rejecting_client
        \<lparr>uri = ''file:///a.carbon'', version = 1, getText = ''hello''\<rparr>
        (initial\<lparr>hasConfigurationCapability := True\<rparr>)) = [] \<and>
   fst (getDocumentSettings ''file:///a.carbon''
     (validateTextDocument rejecting_client
        \<lparr>uri = ''file:///a.carbon'', version = 1, getText = ''hello''\<rparr>
        (initial\<lparr>hasConfigurationCapability := True\<rparr>))) = Requested 0 \<and>
   fst (getDocumentSettings ''file:///a.carbon''
     (onDidClose \<lparr>uri = ''file:///a.carbon'', version = 1, getText = ''hello''\<rparr>
       (validateTextDocument rejecting_client
          \<lparr>uri = ''file:///a.carbon'', version = 1, getText = ''hello''\<rparr>
          (initial\<lparr>hasConfigurationCapability := True\<rparr>)))) = Requested 1"
proof -
  let ?s = "initial\<lparr>hasConfigurationCapability := True\<rparr>"
  let ?d = "\<lparr>uri = ''file:///a.carbon'', version = 1, getText = ''hello''\<rparr>"
  have a: "hasConfigurationCapability ?s" by simp
  have b: "documentSettings ?s (uri ?d) = None" by (simp add: initial_def)
  have c: "rejecting_client (length (requests ?s)) = Rejected" by (simp add: rejecting_client_def)
  have l: "length (requests ?s) = 0" by (simp add: initial_def)
  have p: "published ?s = []" by (simp add: initial_def)
  from failed_resolution_stays_cached [OF a b, of rejecting_client] a b c
  show ?thesis by (simp add: l p initial_def)
qed

end
